theory Spec2Isabelle
  imports Complex_Main "HOL-Library.AList"
begin

section \<open>JavaScript values\<close>

text \<open>
  The components are JavaScript functions over untyped property bags, so the embedding
  starts from a datatype of JavaScript values. Numbers carry the IEEE special values next
  to the finite ones (a finite value is kept as the exact rational; the sign of zero is not
  kept). An object is an association list of its own data properties in insertion order
  (the first binding of a name is the one that counts). A function value is opaque and
  is known by a name only. A React element carries its type, key, ref and props.
\<close>

datatype jsnum = Fin rat | PosInf | NegInf | NaN

datatype jsval =
    VUndefined
  | VNull
  | VBool bool
  | VNum jsnum
  | VStr string
  | VArr "jsval list"
  | VObj "(string \<times> jsval) list"
  | VFun string
  | VElem jsval jsval jsval "(string \<times> jsval) list"

type_synonym fields = "(string \<times> jsval) list"

text \<open>
  What the code can throw: a \<open>TypeError\<close> when a property is read from \<open>undefined\<close> or
  \<open>null\<close> (the string is the property's name) or when a value that is not a function is
  called, and the error React raises through its invariant checks.
\<close>

datatype error = TypeError string | ReactInvariant string

definition bindE :: "error + 'a \<Rightarrow> ('a \<Rightarrow> error + 'b) \<Rightarrow> error + 'b" where
  "bindE m f = (case m of Inl e \<Rightarrow> Inl e | Inr x \<Rightarrow> f x)"

definition nullish :: "jsval \<Rightarrow> bool" where
  "nullish v = (v = VUndefined \<or> v = VNull)"

text \<open>ToBoolean, as \<open>if (x)\<close>, \<open>!x\<close>, \<open>x && y\<close> and \<open>x || y\<close> apply it.\<close>

fun truthy :: "jsval \<Rightarrow> bool" where
  "truthy VUndefined = False"
| "truthy VNull = False"
| "truthy (VBool b) = b"
| "truthy (VNum (Fin r)) = (r \<noteq> 0)"
| "truthy (VNum NaN) = False"
| "truthy (VNum _) = True"
| "truthy (VStr s) = (s \<noteq> [])"
| "truthy _ = True"

text \<open>
  \<open>a === b\<close> where one operand is a primitive (every use in this code compares with a
  number or a string): equal primitives, \<open>NaN\<close> excepted. Identity of objects is not
  modelled, so two objects never compare equal here.
\<close>

fun primitive :: "jsval \<Rightarrow> bool" where
  "primitive VUndefined = True"
| "primitive VNull = True"
| "primitive (VBool _) = True"
| "primitive (VNum _) = True"
| "primitive (VStr _) = True"
| "primitive _ = False"

definition strict_eq :: "jsval \<Rightarrow> jsval \<Rightarrow> bool" where
  "strict_eq a b = (a = b \<and> primitive a \<and> a \<noteq> VNum NaN)"

text \<open>The decimal name of an array index.\<close>

fun string_of_nat :: "nat \<Rightarrow> string" where
  "string_of_nat n =
     (if n < 10 then [char_of (48 + n)]
      else string_of_nat (n div 10) @ [char_of (48 + n mod 10)])"

definition index_names :: "nat \<Rightarrow> string list" where
  "index_names n = map string_of_nat [0..<n]"

text \<open>
  \<open>v.k\<close>: reading a property of \<open>undefined\<close> or \<open>null\<close> throws, a missing property
  reads as \<open>undefined\<close>. Arrays and strings have their length and their indices; properties
  inherited from a prototype are not modelled.
\<close>

fun getProp :: "jsval \<Rightarrow> string \<Rightarrow> error + jsval" where
  "getProp VUndefined k = Inl (TypeError k)"
| "getProp VNull k = Inl (TypeError k)"
| "getProp (VObj fs) k = Inr (case map_of fs k of Some v \<Rightarrow> v | None \<Rightarrow> VUndefined)"
| "getProp (VArr xs) k =
     Inr (if k = ''length'' then VNum (Fin (of_nat (length xs)))
          else case map_of (zip (index_names (length xs)) xs) k of
                 Some v \<Rightarrow> v | None \<Rightarrow> VUndefined)"
| "getProp (VStr s) k =
     Inr (if k = ''length'' then VNum (Fin (of_nat (length s)))
          else case map_of (zip (index_names (length s)) (map (\<lambda>c. VStr [c]) s)) k of
                 Some v \<Rightarrow> v | None \<Rightarrow> VUndefined)"
| "getProp (VElem t key r ps) k =
     Inr (if k = ''type'' then t else if k = ''key'' then key
          else if k = ''ref'' then r else if k = ''props'' then VObj ps
          else VUndefined)"
| "getProp _ k = Inr VUndefined"

text \<open>
  The own enumerable properties \<open>{...v}\<close> and \<open>Object.assign({}, v)\<close> copy; \<open>undefined\<close>,
  \<open>null\<close> and the other primitives contribute none.
\<close>

fun spread :: "jsval \<Rightarrow> fields" where
  "spread (VObj fs) = AList.clearjunk fs"
| "spread (VArr xs) = zip (index_names (length xs)) xs"
| "spread (VStr s) = zip (index_names (length s)) (map (\<lambda>c. VStr [c]) s)"
| "spread (VElem t key r ps) =
     [(''type'', t), (''key'', key), (''ref'', r), (''props'', VObj ps)]"
| "spread _ = []"

text \<open>
  Writing the properties of \<open>src\<close> into an object, in order: a name the object has
  keeps its place and takes the new value, a new name goes to the end.
\<close>

definition assign :: "fields \<Rightarrow> fields \<Rightarrow> fields" where
  "assign tgt src = foldl (\<lambda>acc (k, v). AList.update k v acc) tgt src"

text \<open>
  Calling a value with arguments. The caller's handlers are opaque functions, so a call
  is recorded as what was called and with what; calling anything but a function throws.
\<close>

record invocation =
  callee :: string
  arguments :: "jsval list"

fun call :: "jsval \<Rightarrow> jsval list \<Rightarrow> error + invocation" where
  "call (VFun f) args = Inr \<lparr>callee = f, arguments = args\<rparr>"
| "call _ args = Inl (TypeError ''is not a function'')"

section \<open>React elements\<close>

text \<open>
  \<open>React.createElement(type, config)\<close> for a \<open>config\<close> without \<open>key\<close> and \<open>ref\<close>, which is
  what the JSX of these components compiles to: the props are the attributes as written.
  Props that the component declares defaults for are not filled in here.
\<close>

definition createElement :: "jsval \<Rightarrow> fields \<Rightarrow> jsval" where
  "createElement ty config = VElem ty VNull VNull config"

text \<open>
  \<open>React.cloneElement(element, config)\<close>, again for a \<open>config\<close> without \<open>key\<close> and
  \<open>ref\<close> and with no \<open>undefined\<close> value: React refuses \<open>null\<close> and \<open>undefined\<close>, copies
  \<open>element.props\<close>, writes the properties of \<open>config\<close> over the copy and keeps the type,
  the key and the ref of \<open>element\<close>.
\<close>

fun cloneElement :: "jsval \<Rightarrow> fields \<Rightarrow> error + jsval" where
  "cloneElement VUndefined config = Inl (ReactInvariant ''cloneElement'')"
| "cloneElement VNull config = Inl (ReactInvariant ''cloneElement'')"
| "cloneElement element config =
     bindE (getProp element ''props'') (\<lambda>props.
     bindE (getProp element ''key'') (\<lambda>key.
     bindE (getProp element ''ref'') (\<lambda>ref.
     bindE (getProp element ''type'') (\<lambda>ty.
       Inr (VElem ty key ref (assign (spread props) config))))))"

text \<open>
  The helper \<open>~/utilities/isReactComponent\<close> is not among the sources, so the functions
  below take it as their first argument. \<open>isElement\<close> is the instance the examples use:
  it holds of React elements and of nothing else.
\<close>

fun isElement :: "jsval \<Rightarrow> bool" where
  "isElement (VElem t key r ps) = True"
| "isElement _ = False"

text \<open>The components the JSX names; each is an opaque function.\<close>

definition Avatar :: jsval where
  "Avatar = VFun ''Avatar''"

definition Icon :: jsval where
  "Icon = VFun ''Icon''"

section \<open>The selected listbox of pills\<close>

subsection \<open>The visual of an option\<close>

text \<open>\<open>a || b\<close> where \<open>b\<close> is evaluated only when \<open>a\<close> is falsy.\<close>

definition or_else :: "jsval \<Rightarrow> (error + jsval) \<Rightarrow> error + jsval" where
  "or_else a b = (if truthy a then Inr a else b)"

definition getAvatar :: "(jsval \<Rightarrow> bool) \<Rightarrow> jsval \<Rightarrow> error + jsval" where
  "getAvatar isReactComponent option =
     bindE (getProp option ''avatar'') (\<lambda>avatarObject.
       if truthy avatarObject then
         if isReactComponent avatarObject then
           cloneElement avatarObject
             [(''containerClassName'', VStr ''slds-pill__icon_container'')]
         else
           bindE (getProp avatarObject ''imgSrc'') (\<lambda>imgSrc.
             if truthy imgSrc then
               bindE (getProp avatarObject ''title'') (\<lambda>title.
               bindE (or_else title (getProp option ''label'')) (\<lambda>title'.
               bindE (getProp avatarObject ''variant'') (\<lambda>variant.
               bindE (or_else variant (Inr (VStr ''user''))) (\<lambda>variant'.
                 Inr (createElement Avatar
                   [(''imgSrc'', imgSrc), (''title'', title'), (''variant'', variant')])))))
             else Inr VNull)
       else Inr VNull)"

definition getIcon :: "(jsval \<Rightarrow> bool) \<Rightarrow> jsval \<Rightarrow> error + jsval" where
  "getIcon isReactComponent option =
     bindE (getProp option ''icon'') (\<lambda>iconObject.
       if truthy iconObject then
         if isReactComponent iconObject then
           cloneElement iconObject
             [(''containerClassName'', VStr ''slds-pill__icon_container'')]
         else
           bindE (getProp iconObject ''category'') (\<lambda>category.
           bindE (if truthy category then getProp iconObject ''name'' else Inr category)
             (\<lambda>both.
             if truthy both then
               bindE (getProp iconObject ''name'') (\<lambda>name.
               bindE (getProp iconObject ''title'') (\<lambda>title.
               bindE (or_else title (getProp option ''label'')) (\<lambda>title'.
                 Inr (createElement Icon
                   [(''category'', category), (''name'', name), (''title'', title')]))))
             else Inr VNull))
       else Inr VNull)"

subsection \<open>Props and output\<close>

text \<open>
  The props of \<open>SelectedListBox\<close>. A prop the caller leaves out is \<open>undefined\<close>. Two props
  are typed as their \<open>propTypes\<close> declare them: \<open>selection\<close> is an array (of any values)
  and \<open>renderAtSelectionLength\<close> is a number, \<open>None\<close> when it is left out.
\<close>

record props =
  activeOption :: jsval
  activeOptionIndex :: jsval
  assistiveText :: jsval
  events :: jsval
  id_prop :: jsval
  isInline :: jsval
  isPillContainer :: jsval
  labels :: jsval
  renderAtSelectionLength :: "jsnum option"
  selectedListboxRef :: jsval
  selection :: "jsval list"
  listboxHasFocus :: jsval
  variant :: jsval

text \<open>
  \<open>defaultProps\<close>: React fills in a default where the prop is \<open>undefined\<close>, before it calls
  the component.
\<close>

definition defaultProps :: jsnum where
  "defaultProps = Fin 1"

definition withDefaults :: "props \<Rightarrow> props" where
  "withDefaults p =
     (case renderAtSelectionLength p of
        None \<Rightarrow> p\<lparr>renderAtSelectionLength := Some defaultProps\<rparr>
      | Some n \<Rightarrow> p)"

text \<open>
  \<open>a >= b\<close> on numbers; any comparison with \<open>NaN\<close> is false, and a prop that was left
  out compares as \<open>NaN\<close>.
\<close>

fun js_ge :: "jsnum \<Rightarrow> jsnum \<Rightarrow> bool" where
  "js_ge NaN b = False"
| "js_ge a NaN = False"
| "js_ge PosInf b = True"
| "js_ge a NegInf = True"
| "js_ge NegInf b = False"
| "js_ge a PosInf = False"
| "js_ge (Fin x) (Fin y) = (x \<ge> y)"

fun js_lt :: "jsnum \<Rightarrow> jsnum \<Rightarrow> bool" where
  "js_lt NaN b = False"
| "js_lt a NaN = False"
| "js_lt PosInf b = False"
| "js_lt a NegInf = False"
| "js_lt NegInf b = True"
| "js_lt a PosInf = True"
| "js_lt (Fin x) (Fin y) = (x < y)"

definition toNumber :: "jsnum option \<Rightarrow> jsnum" where
  "toNumber v = (case v of None \<Rightarrow> NaN | Some n \<Rightarrow> n)"

definition num_of_nat :: "nat \<Rightarrow> jsnum" where
  "num_of_nat n = Fin (of_nat n)"

text \<open>
  The props \<open>SelectedListBox\<close> gives to each \<open>Pill\<close>. The two handlers it builds itself are
  functions of the event and the data the pill calls them with; the others are the
  caller's values, passed on as they are. The objects \<open>assistiveText\<close> and \<open>labels\<close> it
  builds for the pill are flattened into their fields.
\<close>

record pill_events =
  onBlur :: jsval
  onClick :: "jsval \<Rightarrow> jsval \<Rightarrow> error + invocation"
  onRequestFocusOnNextPill :: jsval
  onRequestFocusOnPreviousPill :: jsval
  onRequestRemove :: "jsval \<Rightarrow> jsval \<Rightarrow> error + invocation"
  onRequestFocus :: jsval

record pill =
  active :: bool
  assistiveText_remove :: jsval
  avatar :: jsval
  pill_events :: pill_events
  eventData :: jsval
  icon :: jsval
  labels_label :: jsval
  labels_removeTitle :: jsval
  requestFocus :: jsval
  tabIndex :: int

text \<open>
  A list item. Its key is the template string \<open>`${props.id}-list-item-${option.id}`\<close>,
  kept as the two values it is built from.
\<close>

record listitem =
  li_role :: string
  li_className :: string
  li_key :: "jsval \<times> jsval"
  li_pill :: pill

text \<open>
  The container with its list. \<open>ref\<close> is the callback React calls with the node: it calls
  the caller's \<open>selectedListboxRef\<close> when there is one and does nothing otherwise.
\<close>

record listbox =
  className :: jsval
  id_attr :: jsval
  ref :: "jsval \<Rightarrow> (error + invocation) option"
  role :: string
  aria_orientation :: string
  ul_className :: string
  ul_role :: string
  ul_aria_label :: jsval
  items :: "listitem list"

text \<open>
  \<open>classNames\<close> of the library of that name, for names with a condition each: the names
  whose condition holds, separated by spaces.
\<close>

fun join_names :: "string list \<Rightarrow> string" where
  "join_names [] = []"
| "join_names [x] = x"
| "join_names (x # y # ys) = x @ '' '' @ join_names (y # ys)"

definition classNames :: "(string \<times> bool) list \<Rightarrow> string" where
  "classNames cs = join_names (map fst (filter snd cs))"

text \<open>\<open>Array.prototype.map\<close> with the index, stopping at the first callback that throws.\<close>

fun map_index :: "(jsval \<Rightarrow> nat \<Rightarrow> error + 'b) \<Rightarrow> nat \<Rightarrow> jsval list \<Rightarrow> error + 'b list" where
  "map_index f i [] = Inr []"
| "map_index f i (x # xs) =
     bindE (f x i) (\<lambda>y.
     bindE (map_index f (Suc i) xs) (\<lambda>ys.
       Inr (y # ys)))"

subsection \<open>The component\<close>

text \<open>The callback of \<open>props.selection.map\<close>: one list item with its pill.\<close>

definition renderItem :: "(jsval \<Rightarrow> bool) \<Rightarrow> props \<Rightarrow> jsval \<Rightarrow> nat \<Rightarrow> error + listitem" where
  "renderItem isReactComponent props option renderIndex =
     (let setActiveBasedOnstateFromParent =
            strict_eq (VNum (num_of_nat renderIndex)) (activeOptionIndex props);
          listboxRenderedForFirstTime =
            ((strict_eq (activeOptionIndex props) (VNum (Fin (- 1))) \<and> renderIndex = 0) \<or>
             (strict_eq (variant props) (VStr ''readonly'') \<and>
              length (selection props) \<noteq> 1 \<and>
              renderIndex = 0));
          active = (setActiveBasedOnstateFromParent \<or> listboxRenderedForFirstTime)
      in
        bindE (getIcon isReactComponent option) (\<lambda>icon.
        bindE (if \<not> truthy icon then getAvatar isReactComponent option else Inr VNull)
          (\<lambda>avatar.
        bindE (getProp option ''id'') (\<lambda>option_id.
        bindE (getProp (assistiveText props) ''removePill'') (\<lambda>removePill.
        bindE (getProp (events props) ''onBlurPill'') (\<lambda>onBlurPill.
        bindE (getProp (events props) ''onRequestFocusOnNextPill'') (\<lambda>onNext.
        bindE (getProp (events props) ''onRequestFocusOnPreviousPill'') (\<lambda>onPrevious.
        bindE (getProp (events props) ''onRequestFocus'') (\<lambda>onFocus.
        bindE (getProp option ''label'') (\<lambda>label.
        bindE (getProp (labels props) ''removePillTitle'') (\<lambda>removePillTitle.
          Inr \<lparr>li_role = ''presentation'',
               li_className = ''slds-listbox__item'',
               li_key = (id_prop props, option_id),
               li_pill =
                 \<lparr>active = active,
                  assistiveText_remove = removePill,
                  avatar = avatar,
                  pill_events =
                    \<lparr>onBlur = onBlurPill,
                     onClick = (\<lambda>event data.
                       bindE (getProp (events props) ''onClickPill'') (\<lambda>onClickPill.
                         call onClickPill
                           [event,
                            VObj (assign (spread data)
                                    [(''index'', VNum (num_of_nat renderIndex))])])),
                     onRequestFocusOnNextPill = onNext,
                     onRequestFocusOnPreviousPill = onPrevious,
                     onRequestRemove = (\<lambda>event data.
                       bindE (getProp (events props) ''onRequestRemove'') (\<lambda>onRequestRemove.
                         call onRequestRemove
                           [event,
                            VObj (assign (spread data)
                                    [(''index'', VNum (num_of_nat renderIndex))])])),
                     onRequestFocus = onFocus\<rparr>,
                  eventData = VObj [(''option'', option)],
                  icon = icon,
                  labels_label = label,
                  labels_removeTitle = removePillTitle,
                  requestFocus = listboxHasFocus props,
                  tabIndex = (if active then 0 else - 1)\<rparr>\<rparr>)))))))))))"

text \<open>
  The component: \<open>null\<close> (here \<open>None\<close>) below the threshold, the container otherwise.
\<close>

definition SelectedListBox :: "(jsval \<Rightarrow> bool) \<Rightarrow> props \<Rightarrow> error + listbox option" where
  "SelectedListBox isReactComponent props =
     (if js_ge (num_of_nat (length (selection props)))
               (toNumber (renderAtSelectionLength props))
      then
        bindE (getProp (assistiveText props) ''selectedListboxLabel'') (\<lambda>selectedListboxLabel.
        bindE (map_index (renderItem isReactComponent props) 0 (selection props)) (\<lambda>lis.
          Inr (Some
            \<lparr>className =
               (let c = classNames [(''slds-pill_container'', truthy (isPillContainer props))]
                in if c \<noteq> [] then VStr c else VUndefined),
             id_attr = id_prop props,
             ref = (\<lambda>node.
               if truthy (selectedListboxRef props)
               then Some (call (selectedListboxRef props) [node])
               else None),
             role = ''listbox'',
             aria_orientation = ''horizontal'',
             ul_className =
               classNames
                 [(''slds-listbox'', True),
                  (''slds-listbox_inline'', truthy (isInline props)),
                  (''slds-listbox_horizontal'', \<not> truthy (isInline props)),
                  (''slds-p-top_xxx-small'', \<not> truthy (isInline props))],
             ul_role = ''group'',
             ul_aria_label = selectedListboxLabel,
             items = lis\<rparr>)))
      else Inr None)"

text \<open>
  What React does with \<open><SelectedListBox ... />\<close>: the defaults first, then the component.
\<close>

definition render :: "(jsval \<Rightarrow> bool) \<Rightarrow> props \<Rightarrow> error + listbox option" where
  "render isReactComponent props = SelectedListBox isReactComponent (withDefaults props)"

text \<open>
  A pill calling one of the handlers it was given, with an event and its data. The two
  handlers the listbox built are called as they are; the others are the caller's values.
\<close>

datatype handler =
  Click | RequestRemove | RequestFocus | RequestFocusOnNextPill | RequestFocusOnPreviousPill

fun trigger :: "handler \<Rightarrow> pill \<Rightarrow> jsval \<Rightarrow> jsval \<Rightarrow> error + invocation" where
  "trigger Click p event data = onClick (pill_events p) event data"
| "trigger RequestRemove p event data = onRequestRemove (pill_events p) event data"
| "trigger RequestFocus p event data = call (onRequestFocus (pill_events p)) [event, data]"
| "trigger RequestFocusOnNextPill p event data =
     call (onRequestFocusOnNextPill (pill_events p)) [event, data]"
| "trigger RequestFocusOnPreviousPill p event data =
     call (onRequestFocusOnPreviousPill (pill_events p)) [event, data]"

section \<open>The welcome mat\<close>

text \<open>
  \<open>a / b\<close> and \<open>a * b\<close> on numbers. A zero is taken as \<open>+0\<close>, so a finite non-zero
  value divided by zero is the infinity of its sign, and \<open>0 / 0\<close> is \<open>NaN\<close>. A finite
  result is the exact quotient or product (the rounding of doubles is not modelled).
\<close>

fun js_div :: "jsnum \<Rightarrow> jsnum \<Rightarrow> jsnum" where
  "js_div NaN b = NaN"
| "js_div a NaN = NaN"
| "js_div (Fin x) (Fin y) =
     (if y = 0 then (if x = 0 then NaN else if 0 < x then PosInf else NegInf)
      else Fin (x / y))"
| "js_div (Fin x) b = Fin 0"
| "js_div PosInf (Fin y) = (if 0 \<le> y then PosInf else NegInf)"
| "js_div NegInf (Fin y) = (if 0 \<le> y then NegInf else PosInf)"
| "js_div a b = NaN"

fun js_mul :: "jsnum \<Rightarrow> jsnum \<Rightarrow> jsnum" where
  "js_mul NaN b = NaN"
| "js_mul a NaN = NaN"
| "js_mul (Fin x) (Fin y) = Fin (x * y)"
| "js_mul (Fin x) PosInf = (if x = 0 then NaN else if 0 < x then PosInf else NegInf)"
| "js_mul (Fin x) NegInf = (if x = 0 then NaN else if 0 < x then NegInf else PosInf)"
| "js_mul PosInf (Fin y) = (if y = 0 then NaN else if 0 < y then PosInf else NegInf)"
| "js_mul NegInf (Fin y) = (if y = 0 then NaN else if 0 < y then NegInf else PosInf)"
| "js_mul PosInf PosInf = PosInf"
| "js_mul NegInf NegInf = PosInf"
| "js_mul a b = NegInf"

text \<open>
  \<open>React.Children.count\<close> and \<open>React.Children.toArray\<close>. Both walk the children the same
  way: \<open>null\<close> and \<open>undefined\<close> at the top are no children at all; an array stands for
  its members; a plain object is refused; a function is passed over. Inside an array the
  empty nodes (\<open>null\<close>, \<open>undefined\<close>, booleans) are counted, and \<open>toArray\<close> leaves them out.
  (\<open>toArray\<close> also gives the elements new keys; the elements are kept as they are here.)
\<close>

fun count_node :: "jsval \<Rightarrow> error + nat"
  and count_nodes :: "jsval list \<Rightarrow> error + nat" where
  "count_node (VArr xs) = count_nodes xs"
| "count_node (VObj fs) = Inl (ReactInvariant ''Objects are not valid as a React child'')"
| "count_node (VFun f) = Inr 0"
| "count_node v = Inr 1"
| "count_nodes [] = Inr 0"
| "count_nodes (x # xs) =
     bindE (count_node x) (\<lambda>n.
     bindE (count_nodes xs) (\<lambda>m.
       Inr (n + m)))"

fun flat_node :: "jsval \<Rightarrow> error + jsval list"
  and flat_nodes :: "jsval list \<Rightarrow> error + jsval list" where
  "flat_node (VArr xs) = flat_nodes xs"
| "flat_node (VObj fs) = Inl (ReactInvariant ''Objects are not valid as a React child'')"
| "flat_node (VFun f) = Inr []"
| "flat_node VUndefined = Inr []"
| "flat_node VNull = Inr []"
| "flat_node (VBool b) = Inr []"
| "flat_node v = Inr [v]"
| "flat_nodes [] = Inr []"
| "flat_nodes (x # xs) =
     bindE (flat_node x) (\<lambda>ys.
     bindE (flat_nodes xs) (\<lambda>zs.
       Inr (ys @ zs)))"

definition Children_count :: "jsval \<Rightarrow> error + nat" where
  "Children_count children = (if nullish children then Inr 0 else count_node children)"

definition Children_toArray :: "jsval \<Rightarrow> error + jsval list" where
  "Children_toArray children = (if nullish children then Inr [] else flat_node children)"

text \<open>\<open>.filter((c) => c.props.isComplete)\<close>, stopping at the first child it throws on.\<close>

fun filter_isComplete :: "jsval list \<Rightarrow> error + jsval list" where
  "filter_isComplete [] = Inr []"
| "filter_isComplete (c # cs) =
     bindE (getProp c ''props'') (\<lambda>c_props.
     bindE (getProp c_props ''isComplete'') (\<lambda>isComplete.
     bindE (filter_isComplete cs) (\<lambda>rest.
       Inr (if truthy isComplete then c # rest else rest))))"

text \<open>
  The component instance: its children (the one prop \<open>getCount\<close> reads), the generated
  id and the state.
\<close>

record welcome_mat_state =
  completedSteps :: nat
  totalSteps :: nat
  progress :: jsnum

record welcome_mat =
  children :: jsval
  generatedId :: jsval
  state :: welcome_mat_state

definition constructor :: "jsval \<Rightarrow> welcome_mat" where
  "constructor children_prop =
     \<lparr>children = children_prop,
      generatedId = VUndefined,
      state = \<lparr>completedSteps = 0, totalSteps = 0, progress = Fin 0\<rparr>\<rparr>"

definition getCount :: "welcome_mat \<Rightarrow> error + welcome_mat" where
  "getCount this =
     bindE (Children_count (children this)) (\<lambda>total.
     bindE (Children_toArray (children this)) (\<lambda>array.
     bindE (filter_isComplete array) (\<lambda>complete.
       let completed = length complete;
           prog = js_mul (js_div (num_of_nat completed) (num_of_nat total)) (Fin 100)
       in Inr (this\<lparr>state := (state this)
                 \<lparr>totalSteps := total, completedSteps := completed, progress := prog\<rparr>\<rparr>))))"

text \<open>
  \<open>componentWillMount\<close>; the id \<open>shortid.generate()\<close> returns is an argument. Mounting is
  the constructor followed by it.
\<close>

definition componentWillMount :: "string \<Rightarrow> welcome_mat \<Rightarrow> error + welcome_mat" where
  "componentWillMount shortid this = getCount (this\<lparr>generatedId := VStr shortid\<rparr>)"

definition mount :: "string \<Rightarrow> jsval \<Rightarrow> error + welcome_mat" where
  "mount shortid children_prop = componentWillMount shortid (constructor children_prop)"

section \<open>Observations and examples\<close>

text \<open>
  Whether a value has a property that counts as present for \<open>&&\<close> and \<open>if\<close>: the property
  can be read and its value is truthy.
\<close>

definition carries :: "jsval \<Rightarrow> string \<Rightarrow> bool" where
  "carries v k = (case getProp v k of Inr x \<Rightarrow> truthy x | Inl e \<Rightarrow> False)"

text \<open>The pills of a render, in order; none when it threw or gave \<open>null\<close>.\<close>

definition rendered_pills :: "error + listbox option \<Rightarrow> pill list" where
  "rendered_pills r = (case r of Inr (Some lb) \<Rightarrow> map li_pill (items lb) | _ \<Rightarrow> [])"

text \<open>Concrete inputs, used to run the definitions.\<close>

definition example_option :: jsval where
  "example_option =
     VObj [(''id'', VStr ''7''), (''label'', VStr ''Acme''),
           (''icon'', VObj [(''category'', VStr ''standard''), (''name'', VStr ''account'')]),
           (''avatar'', VObj [(''imgSrc'', VStr ''/acme.png'')])]"

definition example_plain :: jsval where
  "example_plain =
     VObj [(''id'', VStr ''8''), (''label'', VStr ''Beta''),
           (''icon'', VObj [(''category'', VStr ''standard'')])]"

definition example_prebuilt :: jsval where
  "example_prebuilt =
     VObj [(''id'', VStr ''9''), (''label'', VStr ''Gamma''),
           (''icon'',
            VElem (VFun ''Icon'') (VStr ''k1'') VNull
              [(''name'', VStr ''case''), (''containerClassName'', VStr ''mine'')])]"

definition example_empty_title :: jsval where
  "example_empty_title =
     VObj [(''id'', VStr ''10''), (''label'', VStr ''Acme''),
           (''icon'',
            VObj [(''category'', VStr ''standard''), (''name'', VStr ''account''),
                  (''title'', VStr [])])]"

definition example_props :: props where
  "example_props =
     \<lparr>activeOption = VUndefined,
      activeOptionIndex = VNum (Fin (- 1)),
      assistiveText =
        VObj [(''removePill'', VStr ''Press delete to remove''),
              (''selectedListboxLabel'', VStr ''Selected Options:'')],
      events =
        VObj [(''onClickPill'', VFun ''handleClickPill''),
              (''onRequestFocus'', VFun ''handleRequestFocus''),
              (''onRequestFocusOnNextPill'', VFun ''handleNext''),
              (''onRequestFocusOnPreviousPill'', VFun ''handlePrevious''),
              (''onRequestRemove'', VFun ''handleRemove'')],
      id_prop = VStr ''box'',
      isInline = VUndefined,
      isPillContainer = VBool True,
      labels = VObj [(''removePillTitle'', VStr ''Remove'')],
      renderAtSelectionLength = None,
      selectedListboxRef = VUndefined,
      selection = [example_option, example_plain],
      listboxHasFocus = VBool False,
      variant = VStr ''base''\<rparr>"

section \<open>Basic facts\<close>

text \<open>The definitions that running the component on the examples unfolds.\<close>

lemmas example_defs = render_def SelectedListBox_def withDefaults_def defaultProps_def
  toNumber_def num_of_nat_def renderItem_def getIcon_def getAvatar_def or_else_def
  createElement_def Icon_def Avatar_def example_props_def example_option_def
  example_plain_def rendered_pills_def Let_def classNames_def assign_def nullish_def
  carries_def

lemma bindE_Inl [simp]: "bindE (Inl e) f = Inl e"
  by (simp add: bindE_def)

lemma bindE_Inr [simp]: "bindE (Inr x) f = f x"
  by (simp add: bindE_def)

lemma bindE_eq_Inr: "bindE m f = Inr y \<longleftrightarrow> (\<exists>x. m = Inr x \<and> f x = Inr y)"
  by (cases m) simp_all

lemma bindE_eq_Inl: "bindE m f = Inl e \<longleftrightarrow> m = Inl e \<or> (\<exists>x. m = Inr x \<and> f x = Inl e)"
  by (cases m) simp_all

lemma getProp_Inl_iff: "getProp v k = Inl e \<longleftrightarrow> nullish v \<and> e = TypeError k"
  by (cases v) (auto simp: nullish_def)

lemma getProp_total: "\<not> nullish v \<Longrightarrow> \<exists>x. getProp v k = Inr x"
  by (cases "getProp v k") (simp_all add: getProp_Inl_iff)

lemma truthy_not_nullish: "truthy v \<Longrightarrow> \<not> nullish v"
  by (auto simp: nullish_def)

lemma truthy_prop_truthy: "getProp v k = Inr x \<Longrightarrow> truthy x \<Longrightarrow> truthy v"
  by (cases v) (auto split: if_splits)

lemma cloneElement_element:
  "\<not> nullish v \<Longrightarrow> \<exists>t key r ps. cloneElement v c = Inr (VElem t key r ps)"
  by (cases v) (simp_all add: nullish_def)

lemma assign_single: "assign fs [(k, v)] = AList.update k v fs"
  by (simp add: assign_def)

lemma payload_index:
  "getProp (VObj (assign fs [(''index'', v)])) ''index'' = Inr v"
  by (simp add: assign_single AList.update_conv')

lemma payload_other:
  "k \<noteq> ''index'' \<Longrightarrow>
   getProp (VObj (assign fs [(''index'', v)])) k = getProp (VObj fs) k"
  by (simp add: assign_single AList.update_conv')

lemma injected_payload:
  "\<exists>payload.
     call (VFun f) [event, VObj (assign fs [(''index'', v)])] =
       Inr \<lparr>callee = f, arguments = [event, payload]\<rparr> \<and>
     getProp payload ''index'' = Inr v \<and>
     (\<forall>k. k \<noteq> ''index'' \<longrightarrow> getProp payload k = getProp (VObj fs) k)"
proof (intro exI conjI allI impI)
  show "call (VFun f) [event, VObj (assign fs [(''index'', v)])] =
      Inr \<lparr>callee = f, arguments = [event, VObj (assign fs [(''index'', v)])]\<rparr>"
    by simp
  show "getProp (VObj (assign fs [(''index'', v)])) ''index'' = Inr v"
    by (rule payload_index)
  fix k :: string
  assume "k \<noteq> ''index''"
  then show "getProp (VObj (assign fs [(''index'', v)])) k = getProp (VObj fs) k"
    by (rule payload_other)
qed

lemma strict_eq_Fin_left [simp]: "strict_eq (VNum (Fin q)) b \<longleftrightarrow> b = VNum (Fin q)"
  by (auto simp: strict_eq_def)

lemma strict_eq_Fin_right [simp]: "strict_eq a (VNum (Fin q)) \<longleftrightarrow> a = VNum (Fin q)"
  by (auto simp: strict_eq_def)

lemma strict_eq_VStr_right [simp]: "strict_eq a (VStr s) \<longleftrightarrow> a = VStr s"
  by (auto simp: strict_eq_def)

lemma js_lt_not_ge: "js_lt a b \<Longrightarrow> \<not> js_ge a b"
  by (cases a; cases b) simp_all

section \<open>The visual of an option\<close>

lemma getIcon_shape:
  assumes "\<not> nullish option"
  shows "getIcon isRC option = Inr VNull \<or>
         (\<exists>t key r ps. getIcon isRC option = Inr (VElem t key r ps))"
proof -
  obtain io where io: "getProp option ''icon'' = Inr io"
    using getProp_total [OF assms] by blast
  show ?thesis
  proof (cases "truthy io")
    case False
    with io show ?thesis
      by (simp add: getIcon_def)
  next
    case True
    then have nn: "\<not> nullish io" by (rule truthy_not_nullish)
    show ?thesis
    proof (cases "isRC io")
      case True
      obtain t key r ps where
        "cloneElement io [(''containerClassName'', VStr ''slds-pill__icon_container'')] =
           Inr (VElem t key r ps)"
        using cloneElement_element [OF nn] by blast
      with io \<open>truthy io\<close> True show ?thesis
        by (simp add: getIcon_def)
    next
      case False
      obtain c n t where c: "getProp io ''category'' = Inr c"
        and n: "getProp io ''name'' = Inr n" and t: "getProp io ''title'' = Inr t"
        using getProp_total [OF nn] by metis
      obtain l where l: "getProp option ''label'' = Inr l"
        using getProp_total [OF assms] by blast
      from io \<open>truthy io\<close> False c n t l show ?thesis
        by (simp add: getIcon_def or_else_def createElement_def)
    qed
  qed
qed

lemma getAvatar_shape:
  assumes "\<not> nullish option"
  shows "getAvatar isRC option = Inr VNull \<or>
         (\<exists>t key r ps. getAvatar isRC option = Inr (VElem t key r ps))"
proof -
  obtain ao where ao: "getProp option ''avatar'' = Inr ao"
    using getProp_total [OF assms] by blast
  show ?thesis
  proof (cases "truthy ao")
    case False
    with ao show ?thesis
      by (simp add: getAvatar_def)
  next
    case True
    then have nn: "\<not> nullish ao" by (rule truthy_not_nullish)
    show ?thesis
    proof (cases "isRC ao")
      case True
      obtain t key r ps where
        "cloneElement ao [(''containerClassName'', VStr ''slds-pill__icon_container'')] =
           Inr (VElem t key r ps)"
        using cloneElement_element [OF nn] by blast
      with ao \<open>truthy ao\<close> True show ?thesis
        by (simp add: getAvatar_def)
    next
      case False
      obtain s t v where s: "getProp ao ''imgSrc'' = Inr s"
        and t: "getProp ao ''title'' = Inr t" and v: "getProp ao ''variant'' = Inr v"
        using getProp_total [OF nn] by metis
      obtain l where l: "getProp option ''label'' = Inr l"
        using getProp_total [OF assms] by blast
      from ao \<open>truthy ao\<close> False s t v l show ?thesis
        by (simp add: getAvatar_def or_else_def createElement_def)
    qed
  qed
qed

lemma getIcon_Inl: "getIcon isRC option = Inl e \<Longrightarrow> e = TypeError ''icon''"
proof (cases "nullish option")
  case True
  assume "getIcon isRC option = Inl e"
  with True show ?thesis by (auto simp: getIcon_def nullish_def)
next
  case False
  assume "getIcon isRC option = Inl e"
  with getIcon_shape [OF False, of isRC] show ?thesis by auto
qed

lemma getAvatar_Inl: "getAvatar isRC option = Inl e \<Longrightarrow> e = TypeError ''avatar''"
proof (cases "nullish option")
  case True
  assume "getAvatar isRC option = Inl e"
  with True show ?thesis by (auto simp: getAvatar_def nullish_def)
next
  case False
  assume "getAvatar isRC option = Inl e"
  with getAvatar_shape [OF False, of isRC] show ?thesis by auto
qed

lemma getIcon_Inr_not_nullish: "getIcon isRC option = Inr v \<Longrightarrow> \<not> nullish option"
  by (auto simp: getIcon_def nullish_def)

lemma getIcon_truthy:
  assumes "getIcon isRC option = Inr v"
  shows "truthy v \<longleftrightarrow> v \<noteq> VNull"
  using getIcon_shape [OF getIcon_Inr_not_nullish [OF assms], of isRC] assms by auto

lemma getIcon_resolves:
  assumes io: "getProp option ''icon'' = Inr io" and t: "truthy io"
    and r: "isRC io \<or> (carries io ''category'' \<and> carries io ''name'')"
  shows "\<exists>v. getIcon isRC option = Inr v \<and> v \<noteq> VNull"
proof -
  from io have nn: "\<not> nullish option"
    by (auto simp: nullish_def)
  have nio: "\<not> nullish io" using t by (rule truthy_not_nullish)
  show ?thesis
  proof (cases "isRC io")
    case True
    obtain ty key rf ps where
      "cloneElement io [(''containerClassName'', VStr ''slds-pill__icon_container'')] =
         Inr (VElem ty key rf ps)"
      using cloneElement_element [OF nio] by blast
    with io t True show ?thesis by (simp add: getIcon_def)
  next
    case False
    with r have c: "carries io ''category''" and n: "carries io ''name''" by simp_all
    obtain tt where tt: "getProp io ''title'' = Inr tt"
      using getProp_total [OF nio] by blast
    obtain l where l: "getProp option ''label'' = Inr l"
      using getProp_total [OF nn] by blast
    from io t False c n tt l show ?thesis
      by (auto simp: getIcon_def carries_def or_else_def createElement_def split: sum.splits)
  qed
qed

lemma getIcon_no_icon:
  assumes "getProp option ''icon'' = Inr io"
    and "\<not> truthy io \<or> (\<not> isRC io \<and> \<not> (carries io ''category'' \<and> carries io ''name''))"
  shows "getIcon isRC option = Inr VNull"
proof (cases "truthy io")
  case False
  with assms(1) show ?thesis by (simp add: getIcon_def)
next
  case True
  then have nn: "\<not> nullish io" by (rule truthy_not_nullish)
  obtain c n where c: "getProp io ''category'' = Inr c"
    and n: "getProp io ''name'' = Inr n"
    using getProp_total [OF nn] by metis
  from assms True c n show ?thesis
    by (auto simp: getIcon_def carries_def)
qed

lemma getAvatar_no_avatar:
  assumes "getProp option ''avatar'' = Inr ao"
    and "\<not> truthy ao \<or> (\<not> isRC ao \<and> \<not> carries ao ''imgSrc'')"
  shows "getAvatar isRC option = Inr VNull"
proof (cases "truthy ao")
  case False
  with assms(1) show ?thesis by (simp add: getAvatar_def)
next
  case True
  then have nn: "\<not> nullish ao" by (rule truthy_not_nullish)
  obtain s where s: "getProp ao ''imgSrc'' = Inr s"
    using getProp_total [OF nn] by metis
  from assms True s show ?thesis
    by (auto simp: getAvatar_def carries_def)
qed

text \<open>
  Claim C8. For every option (any value but \<open>null\<close> and \<open>undefined\<close>), \<open>getIcon\<close> and
  \<open>getAvatar\<close> return, and what they return is \<open>null\<close> or an element. An \<open>icon\<close> that is
  absent (or otherwise falsy), or that is neither a pre-built visual nor has both a
  category and a name, gives \<open>null\<close>; so does an \<open>avatar\<close> that is absent, or that is
  neither a pre-built visual nor has an \<open>imgSrc\<close>.
\<close>

theorem visual_resolution_total:
  assumes "\<not> nullish option"
  shows "(\<exists>v. getIcon isRC option = Inr v \<and> (v = VNull \<or> isElement v)) \<and>
         (\<exists>v. getAvatar isRC option = Inr v \<and> (v = VNull \<or> isElement v)) \<and>
         (\<forall>io. getProp option ''icon'' = Inr io \<and>
            (\<not> truthy io \<or>
             (\<not> isRC io \<and> \<not> (carries io ''category'' \<and> carries io ''name''))) \<longrightarrow>
            getIcon isRC option = Inr VNull) \<and>
         (\<forall>ao. getProp option ''avatar'' = Inr ao \<and>
            (\<not> truthy ao \<or> (\<not> isRC ao \<and> \<not> carries ao ''imgSrc'')) \<longrightarrow>
            getAvatar isRC option = Inr VNull)"
proof (intro conjI allI impI)
  show "\<exists>v. getIcon isRC option = Inr v \<and> (v = VNull \<or> isElement v)"
    using getIcon_shape [OF assms, of isRC] by auto
  show "\<exists>v. getAvatar isRC option = Inr v \<and> (v = VNull \<or> isElement v)"
    using getAvatar_shape [OF assms, of isRC] by auto
next
  fix io
  assume "getProp option ''icon'' = Inr io \<and>
    (\<not> truthy io \<or> (\<not> isRC io \<and> \<not> (carries io ''category'' \<and> carries io ''name'')))"
  then show "getIcon isRC option = Inr VNull"
    using getIcon_no_icon by blast
next
  fix ao
  assume "getProp option ''avatar'' = Inr ao \<and>
    (\<not> truthy ao \<or> (\<not> isRC ao \<and> \<not> carries ao ''imgSrc''))"
  then show "getAvatar isRC option = Inr VNull"
    using getAvatar_no_avatar by blast
qed

theorem visual_resolution_total_witness:
  "\<not> nullish example_plain \<and>
   getProp example_plain ''icon'' = Inr (VObj [(''category'', VStr ''standard'')]) \<and>
   getProp example_plain ''avatar'' = Inr VUndefined \<and>
   getIcon isElement example_plain = Inr VNull \<and>
   getAvatar isElement example_plain = Inr VNull"
  using visual_resolution_total [of example_plain isElement]
  by (simp add: example_plain_def nullish_def carries_def)

text \<open>
  Claim C6. When the option's \<open>icon\<close> is a pre-built element, the resolved icon is that
  element with \<open>containerClassName\<close> set to \<open>slds-pill__icon_container\<close>: the type, the key
  and the ref are the same, and so is every other prop.
\<close>

theorem prebuilt_icon_passthrough:
  assumes "getProp option ''icon'' = Inr (VElem t key r ps)"
    and "isRC (VElem t key r ps)"
  shows "\<exists>ps'. getIcon isRC option = Inr (VElem t key r ps') \<and>
           map_of ps' ''containerClassName'' = Some (VStr ''slds-pill__icon_container'') \<and>
           (\<forall>k. k \<noteq> ''containerClassName'' \<longrightarrow> map_of ps' k = map_of ps k) \<and>
           (distinct (map fst ps) \<longrightarrow>
              ps' = AList.update ''containerClassName'' (VStr ''slds-pill__icon_container'') ps)"
proof -
  let ?ps' = "AList.update ''containerClassName'' (VStr ''slds-pill__icon_container'')
                (AList.clearjunk ps)"
  have "getIcon isRC option = Inr (VElem t key r ?ps')"
    using assms by (simp add: getIcon_def assign_single)
  moreover have "map_of ?ps' ''containerClassName'' = Some (VStr ''slds-pill__icon_container'')"
    by (simp add: AList.update_conv')
  moreover have "\<forall>k. k \<noteq> ''containerClassName'' \<longrightarrow> map_of ?ps' k = map_of ps k"
    by (simp add: AList.update_conv' AList.map_of_clearjunk)
  moreover have "distinct (map fst ps) \<longrightarrow>
      ?ps' = AList.update ''containerClassName'' (VStr ''slds-pill__icon_container'') ps"
    by (simp add: AList.distinct_clearjunk_id)
  ultimately show ?thesis by blast
qed

theorem prebuilt_icon_passthrough_witness:
  "getProp example_prebuilt ''icon'' =
     Inr (VElem (VFun ''Icon'') (VStr ''k1'') VNull
       [(''name'', VStr ''case''), (''containerClassName'', VStr ''mine'')]) \<and>
   isElement (VElem (VFun ''Icon'') (VStr ''k1'') VNull
       [(''name'', VStr ''case''), (''containerClassName'', VStr ''mine'')]) \<and>
   getIcon isElement example_prebuilt =
     Inr (VElem (VFun ''Icon'') (VStr ''k1'') VNull
       [(''name'', VStr ''case''),
        (''containerClassName'', VStr ''slds-pill__icon_container'')])"
proof -
  have g: "getProp example_prebuilt ''icon'' =
     Inr (VElem (VFun ''Icon'') (VStr ''k1'') VNull
       [(''name'', VStr ''case''), (''containerClassName'', VStr ''mine'')])"
    by (simp add: example_prebuilt_def)
  from prebuilt_icon_passthrough [OF g, of isElement] g show ?thesis
    by auto
qed

text \<open>
  Claim C7, as the code has it. For an \<open>icon\<close> that is not a pre-built visual and has a
  category and a name, the title of the icon built from them is \<open>option.icon.title\<close> when
  that value is truthy, and \<open>option.label\<close> otherwise; a title that is present but empty
  (or otherwise falsy) gives way to the label, as \<open>||\<close> has it.
\<close>

theorem descriptor_icon_title:
  assumes io: "getProp option ''icon'' = Inr io" and nrc: "\<not> isRC io"
    and c: "getProp io ''category'' = Inr c" "truthy c"
    and n: "getProp io ''name'' = Inr n" "truthy n"
    and t: "getProp io ''title'' = Inr t"
    and l: "getProp option ''label'' = Inr l"
  shows "getIcon isRC option =
           Inr (createElement Icon
             [(''category'', c), (''name'', n), (''title'', if truthy t then t else l)])"
proof -
  have "truthy io" using c by (rule truthy_prop_truthy)
  with assms show ?thesis
    by (simp add: getIcon_def or_else_def)
qed

theorem descriptor_icon_title_witness:
  "getProp example_option ''icon'' =
     Inr (VObj [(''category'', VStr ''standard''), (''name'', VStr ''account'')]) \<and>
   \<not> isElement (VObj [(''category'', VStr ''standard''), (''name'', VStr ''account'')]) \<and>
   getProp (VObj [(''category'', VStr ''standard''), (''name'', VStr ''account'')]) ''title'' =
     Inr VUndefined \<and>
   getProp example_option ''label'' = Inr (VStr ''Acme'') \<and>
   getIcon isElement example_option =
     Inr (createElement Icon
       [(''category'', VStr ''standard''), (''name'', VStr ''account''),
        (''title'', VStr ''Acme'')])"
  using descriptor_icon_title
    [of example_option "VObj [(''category'', VStr ''standard''), (''name'', VStr ''account'')]"
        isElement "VStr ''standard''" "VStr ''account''" VUndefined "VStr ''Acme''"]
  by (simp add: example_option_def)

text \<open>
  A descriptor whose \<open>title\<close> is present and is the empty string: the icon's title is the
  option's label, not the title given.
\<close>

theorem empty_title_falls_back_to_label:
  "getProp example_empty_title ''icon'' =
     Inr (VObj [(''category'', VStr ''standard''), (''name'', VStr ''account''),
                (''title'', VStr [])]) \<and>
   getProp (VObj [(''category'', VStr ''standard''), (''name'', VStr ''account''),
                  (''title'', VStr [])]) ''title'' = Inr (VStr []) \<and>
   getIcon isElement example_empty_title =
     Inr (createElement Icon
       [(''category'', VStr ''standard''), (''name'', VStr ''account''),
        (''title'', VStr ''Acme'')])"
  by (simp add: example_empty_title_def getIcon_def or_else_def)

section \<open>The rendered list\<close>

lemma map_index_Inr:
  "map_index f k xs = Inr ys \<Longrightarrow>
   length ys = length xs \<and> (\<forall>i<length xs. f (xs ! i) (k + i) = Inr (ys ! i))"
proof (induction xs arbitrary: k ys)
  case Nil
  then show ?case by simp
next
  case (Cons x xs)
  from Cons.prems obtain y zs where y: "f x k = Inr y"
    and zs: "map_index f (Suc k) xs = Inr zs" and ys: "ys = y # zs"
    by (auto simp: bindE_eq_Inr)
  from Cons.IH [OF zs] have len: "length zs = length xs"
    and nth: "\<forall>i<length xs. f (xs ! i) (Suc k + i) = Inr (zs ! i)"
    by simp_all
  show ?case
  proof (intro conjI allI impI)
    show "length ys = length (x # xs)" using len ys by simp
  next
    fix i assume "i < length (x # xs)"
    then show "f ((x # xs) ! i) (k + i) = Inr (ys ! i)"
      using y nth ys by (cases i) simp_all
  qed
qed

lemma map_index_total:
  "(\<forall>i<length xs. \<exists>y. f (xs ! i) (k + i) = Inr y) \<Longrightarrow> \<exists>ys. map_index f k xs = Inr ys"
proof (induction xs arbitrary: k)
  case Nil
  then show ?case by simp
next
  case (Cons x xs)
  from Cons.prems have "\<exists>y. f ((x # xs) ! 0) (k + 0) = Inr y" by blast
  then obtain y where y: "f x k = Inr y" by auto
  have "\<forall>i<length xs. \<exists>y. f (xs ! i) (Suc k + i) = Inr y"
  proof (intro allI impI)
    fix i assume "i < length xs"
    then have "Suc i < length (x # xs)" by simp
    with Cons.prems have "\<exists>y. f ((x # xs) ! Suc i) (k + Suc i) = Inr y" by blast
    then show "\<exists>y. f (xs ! i) (Suc k + i) = Inr y" by simp
  qed
  from Cons.IH [OF this] obtain zs where "map_index f (Suc k) xs = Inr zs" by blast
  with y show ?case by simp
qed

lemma map_index_Inl:
  "map_index f k xs = Inl e \<Longrightarrow> \<exists>i<length xs. f (xs ! i) (k + i) = Inl e"
proof (induction xs arbitrary: k)
  case Nil
  then show ?case by simp
next
  case (Cons x xs)
  show ?case
  proof (cases "f x k")
    case (Inl e')
    with Cons.prems have "f ((x # xs) ! 0) (k + 0) = Inl e" by simp
    then show ?thesis by (intro exI [of _ 0]) simp
  next
    case (Inr y)
    with Cons.prems have "map_index f (Suc k) xs = Inl e"
      by (cases "map_index f (Suc k) xs") simp_all
    from Cons.IH [OF this] obtain i where "i < length xs" "f (xs ! i) (Suc k + i) = Inl e"
      by blast
    then show ?thesis by (intro exI [of _ "Suc i"]) simp
  qed
qed

lemma SelectedListBox_Some:
  assumes "SelectedListBox isRC props = Inr (Some lb)"
  shows "js_ge (num_of_nat (length (selection props))) (toNumber (renderAtSelectionLength props))"
    and "length (items lb) = length (selection props)"
    and "i < length (selection props) \<Longrightarrow>
           renderItem isRC props (selection props ! i) i = Inr (items lb ! i)"
proof -
  show ge: "js_ge (num_of_nat (length (selection props))) (toNumber (renderAtSelectionLength props))"
    using assms by (auto simp: SelectedListBox_def split: if_splits)
  from assms ge have "map_index (renderItem isRC props) 0 (selection props) = Inr (items lb)"
    by (auto simp: SelectedListBox_def bindE_eq_Inr)
  from map_index_Inr [OF this]
  show "length (items lb) = length (selection props)"
    and "i < length (selection props) \<Longrightarrow>
           renderItem isRC props (selection props ! i) i = Inr (items lb ! i)"
    by simp_all
qed

lemma SelectedListBox_below:
  "\<not> js_ge (num_of_nat (length (selection props))) (toNumber (renderAtSelectionLength props)) \<Longrightarrow>
   SelectedListBox isRC props = Inr None"
  by (simp add: SelectedListBox_def)

lemma SelectedListBox_Inr_None:
  "SelectedListBox isRC props = Inr None \<Longrightarrow>
   \<not> js_ge (num_of_nat (length (selection props))) (toNumber (renderAtSelectionLength props))"
  by (auto simp: SelectedListBox_def bindE_eq_Inr split: if_splits)

lemma rendered_pills_nth:
  assumes "i < length (rendered_pills r)"
  obtains lb where "r = Inr (Some lb)" "i < length (items lb)"
    "rendered_pills r ! i = li_pill (items lb ! i)"
  using assms by (auto simp: rendered_pills_def split: sum.splits option.splits)

lemma renderItem_Inr:
  assumes "renderItem isRC props option i = Inr li"
  shows "active (li_pill li) \<longleftrightarrow>
           strict_eq (VNum (num_of_nat i)) (activeOptionIndex props) \<or>
           (strict_eq (activeOptionIndex props) (VNum (Fin (- 1))) \<and> i = 0) \<or>
           (strict_eq (variant props) (VStr ''readonly'') \<and>
            length (selection props) \<noteq> 1 \<and> i = 0)"
    and "tabIndex (li_pill li) = (if active (li_pill li) then 0 else - 1)"
    and "getIcon isRC option = Inr (icon (li_pill li))"
    and "(if \<not> truthy (icon (li_pill li)) then getAvatar isRC option else Inr VNull) =
           Inr (avatar (li_pill li))"
    and "eventData (li_pill li) = VObj [(''option'', option)]"
    and "getProp option ''label'' = Inr (labels_label (li_pill li))"
    and "getProp option ''id'' = Inr (snd (li_key li))"
    and "onClick (pill_events (li_pill li)) = (\<lambda>event data.
           bindE (getProp (events props) ''onClickPill'') (\<lambda>h.
             call h [event, VObj (assign (spread data) [(''index'', VNum (num_of_nat i))])]))"
    and "onRequestRemove (pill_events (li_pill li)) = (\<lambda>event data.
           bindE (getProp (events props) ''onRequestRemove'') (\<lambda>h.
             call h [event, VObj (assign (spread data) [(''index'', VNum (num_of_nat i))])]))"
    and "getProp (events props) ''onRequestFocus'' = Inr (onRequestFocus (pill_events (li_pill li)))"
    and "getProp (events props) ''onRequestFocusOnNextPill'' =
           Inr (onRequestFocusOnNextPill (pill_events (li_pill li)))"
    and "getProp (events props) ''onRequestFocusOnPreviousPill'' =
           Inr (onRequestFocusOnPreviousPill (pill_events (li_pill li)))"
  using assms
  by (auto simp: renderItem_def Let_def bindE_eq_Inr)

lemma renderItem_total:
  assumes o: "\<not> nullish option" and a: "\<not> nullish (assistiveText props)"
    and e: "\<not> nullish (events props)" and l: "\<not> nullish (labels props)"
  shows "\<exists>li. renderItem isRC props option i = Inr li"
proof -
  obtain ic where ic: "getIcon isRC option = Inr ic"
    using getIcon_shape [OF o, of isRC] by blast
  obtain av where av: "getAvatar isRC option = Inr av"
    using getAvatar_shape [OF o, of isRC] by blast
  obtain oid lab where oid: "getProp option ''id'' = Inr oid"
    and lab: "getProp option ''label'' = Inr lab"
    using getProp_total [OF o] by metis
  obtain rp where rp: "getProp (assistiveText props) ''removePill'' = Inr rp"
    using getProp_total [OF a] by blast
  obtain h1 h2 h3 h4 where h: "getProp (events props) ''onBlurPill'' = Inr h1"
    "getProp (events props) ''onRequestFocusOnNextPill'' = Inr h2"
    "getProp (events props) ''onRequestFocusOnPreviousPill'' = Inr h3"
    "getProp (events props) ''onRequestFocus'' = Inr h4"
    using getProp_total [OF e] by metis
  obtain rt where rt: "getProp (labels props) ''removePillTitle'' = Inr rt"
    using getProp_total [OF l] by blast
  from ic av oid lab rp h rt show ?thesis
    by (simp add: renderItem_def Let_def)
qed

lemma renderItem_Inl:
  assumes "renderItem isRC props option i = Inl e"
  shows "\<exists>k. e = TypeError k"
  using assms
  by (auto simp: renderItem_def Let_def bindE_eq_Inl getProp_Inl_iff
      dest: getIcon_Inl getAvatar_Inl split: if_splits)

lemma renderItem_needs_labels:
  assumes "renderItem isRC props option i = Inr li"
  shows "\<not> nullish (labels props)"
  using assms
  by (auto simp: renderItem_def Let_def bindE_eq_Inr nullish_def)

text \<open>
  Claim C3. A selection shorter than \<open>renderAtSelectionLength\<close> renders \<open>null\<close>: the
  component as called, and the component behind React's defaults; the default threshold
  is \<open>1\<close>, so with it an empty selection renders nothing.
\<close>

theorem below_threshold_renders_null:
  "(js_lt (num_of_nat (length (selection props))) (toNumber (renderAtSelectionLength props)) \<longrightarrow>
      SelectedListBox isRC props = Inr None) \<and>
   (js_lt (num_of_nat (length (selection props)))
          (toNumber (renderAtSelectionLength (withDefaults props))) \<longrightarrow>
      render isRC props = Inr None) \<and>
   (renderAtSelectionLength props = None \<longrightarrow>
      renderAtSelectionLength (withDefaults props) = Some (Fin 1)) \<and>
   (renderAtSelectionLength props = None \<and> selection props = [] \<longrightarrow>
      render isRC props = Inr None)"
proof (intro conjI impI)
  assume "js_lt (num_of_nat (length (selection props))) (toNumber (renderAtSelectionLength props))"
  then show "SelectedListBox isRC props = Inr None"
    by (simp add: SelectedListBox_below js_lt_not_ge)
next
  have sel: "selection (withDefaults props) = selection props"
    by (simp add: withDefaults_def split: option.splits)
  assume "js_lt (num_of_nat (length (selection props)))
            (toNumber (renderAtSelectionLength (withDefaults props)))"
  then show "render isRC props = Inr None"
    unfolding render_def using sel
    by (simp add: SelectedListBox_below js_lt_not_ge)
next
  assume "renderAtSelectionLength props = None"
  then show "renderAtSelectionLength (withDefaults props) = Some (Fin 1)"
    by (simp add: withDefaults_def defaultProps_def)
next
  assume "renderAtSelectionLength props = None \<and> selection props = []"
  then show "render isRC props = Inr None"
    by (simp add: render_def SelectedListBox_def withDefaults_def defaultProps_def
        toNumber_def num_of_nat_def)
qed

theorem below_threshold_renders_null_witness:
  "js_lt (num_of_nat (length (selection (example_props\<lparr>renderAtSelectionLength := Some (Fin 3)\<rparr>))))
     (toNumber (renderAtSelectionLength (example_props\<lparr>renderAtSelectionLength := Some (Fin 3)\<rparr>))) \<and>
   SelectedListBox isElement (example_props\<lparr>renderAtSelectionLength := Some (Fin 3)\<rparr>) = Inr None \<and>
   renderAtSelectionLength (example_props\<lparr>selection := []\<rparr>) = None \<and>
   selection (example_props\<lparr>selection := []\<rparr>) = [] \<and>
   render isElement (example_props\<lparr>selection := []\<rparr>) = Inr None"
  using below_threshold_renders_null
    [of "example_props\<lparr>renderAtSelectionLength := Some (Fin 3)\<rparr>" isElement]
    below_threshold_renders_null [of "example_props\<lparr>selection := []\<rparr>" isElement]
  by (simp add: example_props_def toNumber_def num_of_nat_def)

text \<open>
  Claim C4. With the selection at or above the threshold, a render that returns gives a
  container (not \<open>null\<close>) with one pill for each option, in the selection's order: the pill at \<open>i\<close> carries the option at
  \<open>i\<close> as its event data and that option's label. The render does return a container
  when \<open>assistiveText\<close>, \<open>events\<close> and \<open>labels\<close> are given and no option is \<open>null\<close> or
  \<open>undefined\<close>.
\<close>

theorem tokens_follow_selection:
  assumes ge: "js_ge (num_of_nat (length (selection props)))
                 (toNumber (renderAtSelectionLength props))"
  shows "(\<forall>r. SelectedListBox isRC props = Inr r \<longrightarrow>
            r \<noteq> None \<and>
            length (rendered_pills (Inr r)) = length (selection props) \<and>
            (\<forall>i<length (selection props).
               eventData (rendered_pills (Inr r) ! i) = VObj [(''option'', selection props ! i)] \<and>
               getProp (selection props ! i) ''label'' =
                 Inr (labels_label (rendered_pills (Inr r) ! i)))) \<and>
         (\<not> nullish (assistiveText props) \<and> \<not> nullish (events props) \<and>
          \<not> nullish (labels props) \<and> (\<forall>option \<in> set (selection props). \<not> nullish option) \<longrightarrow>
            (\<exists>lb. SelectedListBox isRC props = Inr (Some lb)))"
proof (intro conjI allI impI)
  fix r
  assume r: "SelectedListBox isRC props = Inr r"
  with ge obtain lb where lb: "r = Some lb"
    by (cases r) (auto dest: SelectedListBox_Inr_None)
  from r lb have some: "SelectedListBox isRC props = Inr (Some lb)" by simp
  have pills: "rendered_pills (Inr r) = map li_pill (items lb)"
    using lb by (simp add: rendered_pills_def)
  show "r \<noteq> None" using lb by simp
  show "length (rendered_pills (Inr r)) = length (selection props)"
    using pills SelectedListBox_Some(2) [OF some] by simp
  fix i
  assume i: "i < length (selection props)"
  from SelectedListBox_Some(3) [OF some i]
  have item: "renderItem isRC props (selection props ! i) i = Inr (items lb ! i)" .
  from i SelectedListBox_Some(2) [OF some] have i': "i < length (items lb)" by simp
  show "eventData (rendered_pills (Inr r) ! i) = VObj [(''option'', selection props ! i)]"
    using renderItem_Inr(5) [OF item] pills i' by simp
  show "getProp (selection props ! i) ''label'' = Inr (labels_label (rendered_pills (Inr r) ! i))"
    using renderItem_Inr(6) [OF item] pills i' by simp
next
  assume wf: "\<not> nullish (assistiveText props) \<and> \<not> nullish (events props) \<and>
    \<not> nullish (labels props) \<and> (\<forall>option \<in> set (selection props). \<not> nullish option)"
  then obtain lbl where lbl: "getProp (assistiveText props) ''selectedListboxLabel'' = Inr lbl"
    using getProp_total by blast
  have "\<forall>i<length (selection props).
          \<exists>li. renderItem isRC props (selection props ! i) (0 + i) = Inr li"
    using wf renderItem_total by simp
  from map_index_total [OF this] obtain lis where
    "map_index (renderItem isRC props) 0 (selection props) = Inr lis" by blast
  with ge lbl show "\<exists>lb. SelectedListBox isRC props = Inr (Some lb)"
    by (simp add: SelectedListBox_def)
qed

theorem tokens_follow_selection_witness:
  "js_ge (num_of_nat (length (selection (withDefaults example_props))))
     (toNumber (renderAtSelectionLength (withDefaults example_props))) \<and>
   (\<exists>lb. SelectedListBox isElement (withDefaults example_props) = Inr (Some lb) \<and>
      length (rendered_pills (Inr (Some lb))) = 2 \<and>
      eventData (rendered_pills (Inr (Some lb)) ! 1) = VObj [(''option'', example_plain)])"
proof -
  have ge: "js_ge (num_of_nat (length (selection (withDefaults example_props))))
     (toNumber (renderAtSelectionLength (withDefaults example_props)))"
    by (simp add: example_defs)
  have wf: "\<not> nullish (assistiveText (withDefaults example_props)) \<and>
      \<not> nullish (events (withDefaults example_props)) \<and>
      \<not> nullish (labels (withDefaults example_props)) \<and>
      (\<forall>option \<in> set (selection (withDefaults example_props)). \<not> nullish option)"
    by (simp add: example_defs)
  have sel: "selection (withDefaults example_props) = [example_option, example_plain]"
    by (simp add: withDefaults_def example_props_def)
  from tokens_follow_selection [OF ge, of isElement] wf
  obtain lb where lb: "SelectedListBox isElement (withDefaults example_props) = Inr (Some lb)"
    by blast
  with tokens_follow_selection [OF ge, of isElement] sel
  have "length (rendered_pills (Inr (Some lb))) = 2 \<and>
      eventData (rendered_pills (Inr (Some lb)) ! 1) = VObj [(''option'', example_plain)]"
    by simp
  with ge lb show ?thesis by blast
qed

text \<open>
  Claim C2. For every rendered item at render index \<open>i\<close>, the pill is active exactly when
  \<open>i\<close> is \<open>activeOptionIndex\<close>, or \<open>activeOptionIndex\<close> is \<open>-1\<close> and \<open>i = 0\<close>, or the
  variant is \<open>readonly\<close>, the selection does not have exactly one option and \<open>i = 0\<close>;
  its \<open>tabIndex\<close> is \<open>0\<close> when it is active and \<open>-1\<close> otherwise.
\<close>

theorem active_flag:
  assumes "i < length (rendered_pills (SelectedListBox isRC props))"
  shows "(active (rendered_pills (SelectedListBox isRC props) ! i) \<longleftrightarrow>
            activeOptionIndex props = VNum (Fin (of_nat i)) \<or>
            (activeOptionIndex props = VNum (Fin (- 1)) \<and> i = 0) \<or>
            (variant props = VStr ''readonly'' \<and> length (selection props) \<noteq> 1 \<and> i = 0)) \<and>
         tabIndex (rendered_pills (SelectedListBox isRC props) ! i) =
           (if active (rendered_pills (SelectedListBox isRC props) ! i) then 0 else - 1)"
proof -
  from assms obtain lb where lb: "SelectedListBox isRC props = Inr (Some lb)"
    and i: "i < length (items lb)"
    and p: "rendered_pills (SelectedListBox isRC props) ! i = li_pill (items lb ! i)"
    by (rule rendered_pills_nth)
  from i SelectedListBox_Some(2) [OF lb] have "i < length (selection props)" by simp
  from SelectedListBox_Some(3) [OF lb this]
  have item: "renderItem isRC props (selection props ! i) i = Inr (items lb ! i)" .
  show ?thesis
    unfolding p
    using renderItem_Inr(1) [OF item] renderItem_Inr(2) [OF item]
    by (simp add: num_of_nat_def)
qed

theorem active_flag_witness:
  "1 < length (rendered_pills (SelectedListBox isElement (withDefaults example_props))) \<and>
   \<not> active (rendered_pills (SelectedListBox isElement (withDefaults example_props)) ! 1) \<and>
   tabIndex (rendered_pills (SelectedListBox isElement (withDefaults example_props)) ! 1) = - 1"
proof -
  have len: "1 < length (rendered_pills (SelectedListBox isElement (withDefaults example_props)))"
    by (simp add: example_defs)
  from active_flag [OF len] len show ?thesis
    by (simp add: withDefaults_def defaultProps_def example_props_def)
qed

text \<open>
  Claim C5. For every rendered pill, the icon is what \<open>getIcon\<close> gives for its option, and
  when there is an icon the avatar is \<open>null\<close>: the avatar is looked up only when no icon
  was found. An icon is found whenever the option's \<open>icon\<close> is a pre-built visual or a
  descriptor with a category and a name.
\<close>

theorem icon_precedes_avatar:
  assumes "i < length (rendered_pills (SelectedListBox isRC props))"
  shows "getIcon isRC (selection props ! i) =
           Inr (icon (rendered_pills (SelectedListBox isRC props) ! i)) \<and>
         (icon (rendered_pills (SelectedListBox isRC props) ! i) \<noteq> VNull \<longrightarrow>
            avatar (rendered_pills (SelectedListBox isRC props) ! i) = VNull) \<and>
         (icon (rendered_pills (SelectedListBox isRC props) ! i) = VNull \<longrightarrow>
            getAvatar isRC (selection props ! i) =
              Inr (avatar (rendered_pills (SelectedListBox isRC props) ! i))) \<and>
         (\<forall>io. getProp (selection props ! i) ''icon'' = Inr io \<and> truthy io \<and>
               (isRC io \<or> (carries io ''category'' \<and> carries io ''name'')) \<longrightarrow>
            avatar (rendered_pills (SelectedListBox isRC props) ! i) = VNull)"
proof -
  from assms obtain lb where lb: "SelectedListBox isRC props = Inr (Some lb)"
    and i: "i < length (items lb)"
    and p: "rendered_pills (SelectedListBox isRC props) ! i = li_pill (items lb ! i)"
    by (rule rendered_pills_nth)
  from i SelectedListBox_Some(2) [OF lb] have "i < length (selection props)" by simp
  from SelectedListBox_Some(3) [OF lb this]
  have item: "renderItem isRC props (selection props ! i) i = Inr (items lb ! i)" .
  note ic = renderItem_Inr(3) [OF item]
  note av = renderItem_Inr(4) [OF item]
  have tr: "truthy (icon (li_pill (items lb ! i))) \<longleftrightarrow> icon (li_pill (items lb ! i)) \<noteq> VNull"
    using ic by (rule getIcon_truthy)
  have a: "icon (li_pill (items lb ! i)) \<noteq> VNull \<Longrightarrow> avatar (li_pill (items lb ! i)) = VNull"
    using av tr by auto
  have b: "icon (li_pill (items lb ! i)) = VNull \<Longrightarrow>
      getAvatar isRC (selection props ! i) = Inr (avatar (li_pill (items lb ! i)))"
    using av by simp
  have c: "avatar (li_pill (items lb ! i)) = VNull"
    if "getProp (selection props ! i) ''icon'' = Inr io \<and> truthy io \<and>
        (isRC io \<or> (carries io ''category'' \<and> carries io ''name''))" for io
  proof -
    from that getIcon_resolves [of "selection props ! i" io isRC]
    obtain v where "getIcon isRC (selection props ! i) = Inr v" "v \<noteq> VNull" by blast
    with ic have "icon (li_pill (items lb ! i)) \<noteq> VNull" by simp
    then show ?thesis by (rule a)
  qed
  show ?thesis
    unfolding p using ic a b c by blast
qed

theorem icon_precedes_avatar_witness:
  "0 < length (rendered_pills (SelectedListBox isElement (withDefaults example_props))) \<and>
   getProp example_option ''avatar'' = Inr (VObj [(''imgSrc'', VStr ''/acme.png'')]) \<and>
   icon (rendered_pills (SelectedListBox isElement (withDefaults example_props)) ! 0) =
     VElem (VFun ''Icon'') VNull VNull
       [(''category'', VStr ''standard''), (''name'', VStr ''account''),
        (''title'', VStr ''Acme'')] \<and>
   avatar (rendered_pills (SelectedListBox isElement (withDefaults example_props)) ! 0) = VNull"
proof -
  have len: "0 < length (rendered_pills (SelectedListBox isElement (withDefaults example_props)))"
    by (simp add: example_defs)
  have ic: "getIcon isElement example_option =
      Inr (VElem (VFun ''Icon'') VNull VNull
        [(''category'', VStr ''standard''), (''name'', VStr ''account''),
         (''title'', VStr ''Acme'')])"
    by (simp add: example_defs)
  have sel: "selection (withDefaults example_props) ! 0 = example_option"
    by (simp add: withDefaults_def example_props_def)
  from icon_precedes_avatar [OF len] ic sel len show ?thesis
    by (simp add: example_option_def)
qed

text \<open>
  Claim C1, as the code has it. The listbox builds two of a pill's handlers itself, for
  the click and for the request to remove: whatever event and data the pill at render
  index \<open>i\<close> calls them with, the caller's handler is called with the same event and a
  payload whose \<open>index\<close> is \<open>i\<close>; the ids of the options play no part. The handlers for
  the three focus requests are the caller's own functions, handed to the pill unchanged:
  triggering one is calling the caller's function with the pill's event and data as they
  are, so the payload has an \<open>index\<close> only if the pill put one there.
\<close>

theorem index_injected_on_click_and_remove:
  assumes "i < length (rendered_pills (SelectedListBox isRC props))"
  shows "(\<forall>event data f. getProp (events props) ''onClickPill'' = Inr (VFun f) \<longrightarrow>
            (\<exists>payload.
               trigger Click (rendered_pills (SelectedListBox isRC props) ! i) event data =
                 Inr \<lparr>callee = f, arguments = [event, payload]\<rparr> \<and>
               getProp payload ''index'' = Inr (VNum (num_of_nat i)) \<and>
               (\<forall>k. k \<noteq> ''index'' \<longrightarrow>
                  getProp payload k = getProp (VObj (spread data)) k))) \<and>
         (\<forall>event data f. getProp (events props) ''onRequestRemove'' = Inr (VFun f) \<longrightarrow>
            (\<exists>payload.
               trigger RequestRemove (rendered_pills (SelectedListBox isRC props) ! i) event data =
                 Inr \<lparr>callee = f, arguments = [event, payload]\<rparr> \<and>
               getProp payload ''index'' = Inr (VNum (num_of_nat i)) \<and>
               (\<forall>k. k \<noteq> ''index'' \<longrightarrow>
                  getProp payload k = getProp (VObj (spread data)) k))) \<and>
         (\<forall>event data.
            trigger RequestFocus (rendered_pills (SelectedListBox isRC props) ! i) event data =
              bindE (getProp (events props) ''onRequestFocus'') (\<lambda>h. call h [event, data]) \<and>
            trigger RequestFocusOnNextPill
                (rendered_pills (SelectedListBox isRC props) ! i) event data =
              bindE (getProp (events props) ''onRequestFocusOnNextPill'')
                (\<lambda>h. call h [event, data]) \<and>
            trigger RequestFocusOnPreviousPill
                (rendered_pills (SelectedListBox isRC props) ! i) event data =
              bindE (getProp (events props) ''onRequestFocusOnPreviousPill'')
                (\<lambda>h. call h [event, data]))"
proof -
  from assms obtain lb where lb: "SelectedListBox isRC props = Inr (Some lb)"
    and i: "i < length (items lb)"
    and p: "rendered_pills (SelectedListBox isRC props) ! i = li_pill (items lb ! i)"
    by (rule rendered_pills_nth)
  from i SelectedListBox_Some(2) [OF lb] have "i < length (selection props)" by simp
  from SelectedListBox_Some(3) [OF lb this]
  have item: "renderItem isRC props (selection props ! i) i = Inr (items lb ! i)" .
  show ?thesis
    unfolding p
  proof (intro conjI allI impI)
    fix event data f
    assume "getProp (events props) ''onClickPill'' = Inr (VFun f)"
    then have "trigger Click (li_pill (items lb ! i)) event data =
        call (VFun f) [event, VObj (assign (spread data) [(''index'', VNum (num_of_nat i))])]"
      using renderItem_Inr(8) [OF item] by simp
    then show "\<exists>payload.
        trigger Click (li_pill (items lb ! i)) event data =
          Inr \<lparr>callee = f, arguments = [event, payload]\<rparr> \<and>
        getProp payload ''index'' = Inr (VNum (num_of_nat i)) \<and>
        (\<forall>k. k \<noteq> ''index'' \<longrightarrow> getProp payload k = getProp (VObj (spread data)) k)"
      using injected_payload by simp
  next
    fix event data f
    assume "getProp (events props) ''onRequestRemove'' = Inr (VFun f)"
    then have "trigger RequestRemove (li_pill (items lb ! i)) event data =
        call (VFun f) [event, VObj (assign (spread data) [(''index'', VNum (num_of_nat i))])]"
      using renderItem_Inr(9) [OF item] by simp
    then show "\<exists>payload.
        trigger RequestRemove (li_pill (items lb ! i)) event data =
          Inr \<lparr>callee = f, arguments = [event, payload]\<rparr> \<and>
        getProp payload ''index'' = Inr (VNum (num_of_nat i)) \<and>
        (\<forall>k. k \<noteq> ''index'' \<longrightarrow> getProp payload k = getProp (VObj (spread data)) k)"
      using injected_payload by simp
  next
    fix event data
    show "trigger RequestFocus (li_pill (items lb ! i)) event data =
        bindE (getProp (events props) ''onRequestFocus'') (\<lambda>h. call h [event, data])"
      using renderItem_Inr(10) [OF item] by simp
    show "trigger RequestFocusOnNextPill (li_pill (items lb ! i)) event data =
        bindE (getProp (events props) ''onRequestFocusOnNextPill'')
          (\<lambda>h. call h [event, data])"
      using renderItem_Inr(11) [OF item] by simp
    show "trigger RequestFocusOnPreviousPill (li_pill (items lb ! i)) event data =
        bindE (getProp (events props) ''onRequestFocusOnPreviousPill'')
          (\<lambda>h. call h [event, data])"
      using renderItem_Inr(12) [OF item] by simp
  qed
qed

theorem index_injected_on_click_and_remove_witness:
  "1 < length (rendered_pills (SelectedListBox isElement (withDefaults example_props))) \<and>
   getProp (events (withDefaults example_props)) ''onRequestRemove'' = Inr (VFun ''handleRemove'') \<and>
   (\<exists>payload.
      trigger RequestRemove
        (rendered_pills (SelectedListBox isElement (withDefaults example_props)) ! 1)
        VUndefined (VObj [(''option'', example_plain)]) =
        Inr \<lparr>callee = ''handleRemove'', arguments = [VUndefined, payload]\<rparr> \<and>
      getProp payload ''index'' = Inr (VNum (Fin 1)) \<and>
      getProp payload ''option'' = Inr example_plain)"
proof -
  have len: "1 < length (rendered_pills (SelectedListBox isElement (withDefaults example_props)))"
    by (simp add: example_defs)
  have h: "getProp (events (withDefaults example_props)) ''onRequestRemove'' =
      Inr (VFun ''handleRemove'')"
    by (simp add: withDefaults_def example_props_def)
  note remove = conjunct1 [OF conjunct2 [OF index_injected_on_click_and_remove [OF len]]]
  from remove [rule_format, OF h, of VUndefined "VObj [(''option'', example_plain)]"]
  obtain payload where t: "trigger RequestRemove
        (rendered_pills (SelectedListBox isElement (withDefaults example_props)) ! 1)
        VUndefined (VObj [(''option'', example_plain)]) =
        Inr \<lparr>callee = ''handleRemove'', arguments = [VUndefined, payload]\<rparr>"
    and ix: "getProp payload ''index'' = Inr (VNum (num_of_nat 1))"
    and other: "\<forall>k. k \<noteq> ''index'' \<longrightarrow>
        getProp payload k = getProp (VObj (spread (VObj [(''option'', example_plain)]))) k"
    by blast
  from other have "getProp payload ''option'' =
      getProp (VObj (spread (VObj [(''option'', example_plain)]))) ''option''"
    by simp
  then have opt: "getProp payload ''option'' = Inr example_plain"
    by simp
  from ix have "getProp payload ''index'' = Inr (VNum (Fin 1))"
    by (simp add: num_of_nat_def)
  with len h t opt show ?thesis by blast
qed

text \<open>
  With the second of two items rendered, a focus request whose data is the pill's
  \<open>eventData\<close> reaches the caller's handler with that very object, which has no
  \<open>index\<close>: the index is not injected for all five handlers.
\<close>

theorem focus_request_payload_without_index:
  "1 < length (rendered_pills (render isElement example_props)) \<and>
   trigger RequestFocus (rendered_pills (render isElement example_props) ! 1)
     VUndefined (VObj [(''option'', example_plain)]) =
     Inr \<lparr>callee = ''handleRequestFocus'',
          arguments = [VUndefined, VObj [(''option'', example_plain)]]\<rparr> \<and>
   getProp (VObj [(''option'', example_plain)]) ''index'' = Inr VUndefined"
  by (simp add: example_defs)

text \<open>
  Claim C9. With the selection at or above the threshold, the render reads
  \<open>props.assistiveText.selectedListboxLabel\<close> first of all, so without \<open>assistiveText\<close>
  it throws the \<open>TypeError\<close> of that read; and with at least one option and without
  \<open>labels\<close> it throws a \<open>TypeError\<close> of a property read as well. The defaults supply
  neither prop.
\<close>

theorem absent_text_props_fail:
  assumes ge: "js_ge (num_of_nat (length (selection props)))
                 (toNumber (renderAtSelectionLength props))"
  shows "(nullish (assistiveText props) \<longrightarrow>
            SelectedListBox isRC props = Inl (TypeError ''selectedListboxLabel'')) \<and>
         (nullish (labels props) \<and> selection props \<noteq> [] \<longrightarrow>
            (\<exists>k. SelectedListBox isRC props = Inl (TypeError k))) \<and>
         assistiveText (withDefaults props) = assistiveText props \<and>
         labels (withDefaults props) = labels props"
proof (intro conjI impI)
  assume "nullish (assistiveText props)"
  with ge show "SelectedListBox isRC props = Inl (TypeError ''selectedListboxLabel'')"
    by (auto simp: SelectedListBox_def nullish_def)
next
  assume a: "nullish (labels props) \<and> selection props \<noteq> []"
  show "\<exists>k. SelectedListBox isRC props = Inl (TypeError k)"
  proof (cases "getProp (assistiveText props) ''selectedListboxLabel''")
    case (Inl e)
    then have "e = TypeError ''selectedListboxLabel''"
      by (simp add: getProp_Inl_iff)
    with Inl ge show ?thesis by (simp add: SelectedListBox_def)
  next
    case (Inr lbl)
    show ?thesis
    proof (cases "map_index (renderItem isRC props) 0 (selection props)")
      case (Inl e)
      from map_index_Inl [OF this] renderItem_Inl obtain k where "e = TypeError k" by blast
      with Inl Inr ge show ?thesis by (simp add: SelectedListBox_def)
    next
      case lis: (Inr lis)
      from a have "0 < length (selection props)" by simp
      with map_index_Inr [OF lis]
      have "renderItem isRC props (selection props ! 0) (0 + 0) = Inr (lis ! 0)" by blast
      from renderItem_needs_labels [OF this] a show ?thesis by simp
    qed
  qed
next
  show "assistiveText (withDefaults props) = assistiveText props"
    by (simp add: withDefaults_def split: option.splits)
  show "labels (withDefaults props) = labels props"
    by (simp add: withDefaults_def split: option.splits)
qed

theorem absent_text_props_fail_witness:
  "js_ge (num_of_nat (length (selection (withDefaults example_props))))
     (toNumber (renderAtSelectionLength (withDefaults example_props))) \<and>
   nullish (assistiveText (withDefaults (example_props\<lparr>assistiveText := VUndefined\<rparr>))) \<and>
   render isElement (example_props\<lparr>assistiveText := VUndefined\<rparr>) =
     Inl (TypeError ''selectedListboxLabel'') \<and>
   nullish (labels (withDefaults (example_props\<lparr>labels := VUndefined\<rparr>))) \<and>
   selection (withDefaults (example_props\<lparr>labels := VUndefined\<rparr>)) \<noteq> [] \<and>
   (\<exists>k. render isElement (example_props\<lparr>labels := VUndefined\<rparr>) = Inl (TypeError k))"
proof -
  let ?a = "withDefaults (example_props\<lparr>assistiveText := VUndefined\<rparr>)"
  let ?l = "withDefaults (example_props\<lparr>labels := VUndefined\<rparr>)"
  have ge: "js_ge (num_of_nat (length (selection (withDefaults example_props))))
      (toNumber (renderAtSelectionLength (withDefaults example_props)))"
    by (simp add: withDefaults_def example_props_def defaultProps_def toNumber_def num_of_nat_def)
  have ge_a: "js_ge (num_of_nat (length (selection ?a))) (toNumber (renderAtSelectionLength ?a))"
    by (simp add: withDefaults_def example_props_def defaultProps_def toNumber_def num_of_nat_def)
  have ge_l: "js_ge (num_of_nat (length (selection ?l))) (toNumber (renderAtSelectionLength ?l))"
    by (simp add: withDefaults_def example_props_def defaultProps_def toNumber_def num_of_nat_def)
  have na: "nullish (assistiveText ?a)"
    by (simp add: withDefaults_def example_props_def nullish_def)
  have nl: "nullish (labels ?l)" and sel: "selection ?l \<noteq> []"
    by (simp_all add: withDefaults_def example_props_def nullish_def)
  have "render isElement (example_props\<lparr>assistiveText := VUndefined\<rparr>) =
      Inl (TypeError ''selectedListboxLabel'')"
    using absent_text_props_fail [OF ge_a, of isElement] na by (simp add: render_def)
  moreover have "\<exists>k. render isElement (example_props\<lparr>labels := VUndefined\<rparr>) = Inl (TypeError k)"
    using absent_text_props_fail [OF ge_l, of isElement] nl sel by (simp add: render_def)
  ultimately show ?thesis using ge na nl sel by blast
qed

section \<open>The progress of the welcome mat\<close>

lemma count_zero_flat_empty:
  "(count_node v = Inr 0 \<longrightarrow> flat_node v = Inr [])"
  "(count_nodes vs = Inr 0 \<longrightarrow> flat_nodes vs = Inr [])"
proof (induction v and vs rule: count_node_count_nodes.induct)
  case (6 x xs)
  then show ?case
    by (auto simp: bindE_eq_Inr)
qed simp_all

text \<open>
  Claim C10. Mounting a welcome mat whose children count zero does not throw and stores
  the progress \<open>0 / 0 * 100\<close>, which is \<open>NaN\<close>; the two counts stored are \<open>0\<close>.
\<close>

theorem zero_children_progress_NaN:
  assumes "Children_count children_prop = Inr 0"
  shows "\<exists>this. mount shortid children_prop = Inr this \<and>
           totalSteps (state this) = 0 \<and>
           completedSteps (state this) = 0 \<and>
           progress (state this) = NaN"
proof -
  have "Children_toArray children_prop = Inr []"
    using assms count_zero_flat_empty(1) [of children_prop]
    by (simp add: Children_count_def Children_toArray_def split: if_splits)
  with assms show ?thesis
    by (simp add: mount_def componentWillMount_def getCount_def constructor_def num_of_nat_def)
qed

theorem zero_children_progress_NaN_witness:
  "Children_count (VArr []) = Inr 0 \<and>
   (\<exists>this. mount ''a1'' (VArr []) = Inr this \<and>
      totalSteps (state this) = 0 \<and>
      completedSteps (state this) = 0 \<and>
      progress (state this) = NaN)"
  using zero_children_progress_NaN [of "VArr []" "''a1''"]
  by (simp add: Children_count_def nullish_def)

end
